theory Spec2Isabelle
  imports Main "HOL-Library.AList"
begin

section \<open>Errors\<close>

text \<open>
  The exceptions the modelled methods of \<^verbatim>\<open>theme.py\<close> raise. A method that can
  raise returns a sum, \<open>Inl\<close> carrying the exception. \<open>NotSubscriptable\<close> is what
  \<^verbatim>\<open>value.__getitem__(path)\<close> raises on a value that is not a store: an
  \<^verbatim>\<open>AttributeError\<close> for a number, \<^verbatim>\<open>None\<close> or a template, a \<^verbatim>\<open>TypeError\<close> for a string
  or a list.
\<close>

datatype error =
    KeyError
  | IndexError
  | NotSubscriptable
  | AttributeError
  | AssertionError
  | ResourceNotFound

section \<open>Graphic elements\<close>

text \<open>
  \<^verbatim>\<open>GraphicElement\<close> is abstract; its two instantiable subclasses are
  \<^verbatim>\<open>TextureGraphicElement\<close> and \<^verbatim>\<open>FrameTextureGraphicElement\<close>. The subclass and the
  fields only it has are the \<open>shape\<close> of an element. Bounds, margins and padding are
  Python integers, on which \<^verbatim>\<open>int(...)\<close> is the identity. A 4-tuple is
  (left, right, top, bottom), as the source unpacks it.
\<close>

type_synonym quad4 = "int \<times> int \<times> int \<times> int"

datatype shape =
    TextureShape
  | FrameShape (margins: quad4) (padding: quad4)

text \<open>
  The entry allocated in the draw batch is represented by the vertices it holds
  (colours and texture coordinates are written once by \<^verbatim>\<open>_load\<close> and never read by
  the methods below). \<open>vertex_list = None\<close> is \<^verbatim>\<open>self._vertex_list is None\<close>.
\<close>

record element =
  x_pos :: int
  y_pos :: int
  width :: int
  height :: int
  vertex_list :: "int list option"
  group :: "nat option"
  outer_width :: int
  outer_height :: int
  shape :: shape

text \<open>\<^verbatim>\<open>TextureGraphicElement._get_vertices\<close>.\<close>

definition texture_get_vertices :: "int \<Rightarrow> int \<Rightarrow> int \<Rightarrow> int \<Rightarrow> int list" where
  "texture_get_vertices x y w h =
     (let x1 = x; y1 = y; x2 = x1 + w; y2 = y1 + h
      in [x1, y1, x2, y1, x2, y2, x1, y2])"

text \<open>\<^verbatim>\<open>FrameTextureGraphicElement._get_vertices\<close>: 36 vertices, 4 for each of the 9 rectangles.\<close>

definition frame_get_vertices :: "quad4 \<Rightarrow> int \<Rightarrow> int \<Rightarrow> int \<Rightarrow> int \<Rightarrow> int list" where
  "frame_get_vertices m x y w h =
     (case m of (left, right, top', bottom) \<Rightarrow>
        let x1 = x; y1 = y;
            x2 = x1 + left; y2 = y1 + bottom;
            x3 = x1 + w - right;
            y3 = y1 + h - top';
            x4 = x1 + w; y4 = y1 + h
        in [x1, y1, x2, y1, x2, y2, x1, y2,
            x2, y1, x3, y1, x3, y2, x2, y2,
            x3, y1, x4, y1, x4, y2, x3, y2,
            x1, y2, x2, y2, x2, y3, x1, y3,
            x2, y2, x3, y2, x3, y3, x2, y3,
            x3, y2, x4, y2, x4, y3, x3, y3,
            x1, y3, x2, y3, x2, y4, x1, y4,
            x2, y3, x3, y3, x3, y4, x2, y4,
            x3, y3, x4, y3, x4, y4, x3, y4])"

definition get_vertices :: "element \<Rightarrow> int list" where
  "get_vertices e =
     (case shape e of
        TextureShape \<Rightarrow> texture_get_vertices (x_pos e) (y_pos e) (width e) (height e)
      | FrameShape m p \<Rightarrow> frame_get_vertices m (x_pos e) (y_pos e) (width e) (height e))"

text \<open>
  \<^verbatim>\<open>_load\<close>: both subclasses start with \<^verbatim>\<open>assert self._vertex_list is None\<close> and then
  store the handle \<^verbatim>\<open>self._batch.add(...)\<close> returns.
\<close>

definition load :: "element \<Rightarrow> error + element" where
  "load e =
     (if vertex_list e \<noteq> None then Inl AssertionError
      else Inr (e\<lparr>vertex_list := Some (get_vertices e)\<rparr>))"

text \<open>
  \<^verbatim>\<open>GraphicElement.__init__\<close> through the subclass constructors: position (0, 0), the
  size of the (outer) texture, no vertex list, then \<^verbatim>\<open>self._load()\<close>.
\<close>

definition new_element :: "shape \<Rightarrow> int \<Rightarrow> int \<Rightarrow> nat \<Rightarrow> error + element" where
  "new_element sh tw th g =
     load \<lparr>x_pos = 0, y_pos = 0, width = tw, height = th, vertex_list = None,
           group = Some g, outer_width = tw, outer_height = th, shape = sh\<rparr>"

text \<open>
  \<^verbatim>\<open>unload\<close>: \<^verbatim>\<open>self._vertex_list.delete()\<close> is an attribute access on \<^verbatim>\<open>None\<close> when
  nothing is allocated.
\<close>

definition unload :: "element \<Rightarrow> error + element" where
  "unload e =
     (case vertex_list e of
        None \<Rightarrow> Inl AttributeError
      | Some _ \<Rightarrow> Inr (e\<lparr>vertex_list := None, group := None\<rparr>))"

text \<open>
  \<^verbatim>\<open>update\<close>: stores the bounds; rewrites the vertices only
  \<^verbatim>\<open>if self._vertex_list is not None\<close>.
\<close>

definition update :: "element \<Rightarrow> int \<Rightarrow> int \<Rightarrow> int \<Rightarrow> int \<Rightarrow> error + element" where
  "update e x y w h =
     (let e' = e\<lparr>x_pos := x, y_pos := y, width := w, height := h\<rparr>
      in if vertex_list e' \<noteq> None
         then Inr (e'\<lparr>vertex_list := Some (get_vertices e')\<rparr>)
         else Inr e')"

text \<open>\<^verbatim>\<open>FrameTextureGraphicElement.get_content_size\<close> and \<^verbatim>\<open>get_needed_size\<close>.\<close>

definition frame_get_content_size :: "quad4 \<Rightarrow> int \<Rightarrow> int \<Rightarrow> int \<times> int" where
  "frame_get_content_size p w h =
     (case p of (left, right, top', bottom) \<Rightarrow> (w - left - right, h - top' - bottom))"

definition frame_get_needed_size :: "quad4 \<Rightarrow> int \<Rightarrow> int \<Rightarrow> int \<Rightarrow> int \<Rightarrow> int \<times> int" where
  "frame_get_needed_size p ow oh content_width content_height =
     (case p of (left, right, top', bottom) \<Rightarrow>
        (max (content_width + left + right) ow,
         max (content_height + top' + bottom) oh))"

text \<open>
  The base-class versions (used by a \<^verbatim>\<open>TextureGraphicElement\<close>) return their arguments.
\<close>

definition get_content_size :: "element \<Rightarrow> int \<Rightarrow> int \<Rightarrow> int \<times> int" where
  "get_content_size e w h =
     (case shape e of
        TextureShape \<Rightarrow> (w, h)
      | FrameShape m p \<Rightarrow> frame_get_content_size p w h)"

definition get_needed_size :: "element \<Rightarrow> int \<Rightarrow> int \<Rightarrow> int \<times> int" where
  "get_needed_size e cw ch =
     (case shape e of
        TextureShape \<Rightarrow> (cw, ch)
      | FrameShape m p \<Rightarrow> frame_get_needed_size p (outer_width e) (outer_height e) cw ch)"

subsection \<open>Reading the vertex list as cells\<close>

text \<open>
  A cell is four consecutive vertices, eight numbers. \<open>cells\<close> cuts a vertex list into
  its cells; a cell is a rectangle when its vertices are the corners
  lower-left, lower-right, upper-right, upper-left of an axis-aligned rectangle
  (\<open>rect\<close>). A cell covers the pixels from its left column to, but not including, its
  right column, and the same for rows; \<open>covering\<close> counts the cells of a list that
  cover a pixel.
\<close>

fun cells :: "int list \<Rightarrow> int list list" where
  "cells (a # b # c # d # e # f # g # h # rest) = [a, b, c, d, e, f, g, h] # cells rest"
| "cells _ = []"

definition rect :: "int \<Rightarrow> int \<Rightarrow> int \<Rightarrow> int \<Rightarrow> int list" where
  "rect xa xb ya yb = [xa, ya, xb, ya, xb, yb, xa, yb]"

definition covers :: "int list \<Rightarrow> int \<Rightarrow> int \<Rightarrow> bool" where
  "covers c px py =
     (case c of
        [xa, ya, xb, yb', xc, yc, xd, yd] \<Rightarrow> xa \<le> px \<and> px < xb \<and> ya \<le> py \<and> py < yc
      | _ \<Rightarrow> False)"

definition cell_size :: "int list \<Rightarrow> int \<times> int" where
  "cell_size c = (c ! 2 - c ! 0, c ! 5 - c ! 1)"

definition covering :: "int list list \<Rightarrow> int \<Rightarrow> int \<Rightarrow> nat" where
  "covering cs px py = length (filter (\<lambda>c. covers c px py) cs)"

section \<open>ScopedDict\<close>

text \<open>
  A \<^verbatim>\<open>ScopedDict\<close> is a mutable object that other objects refer to (a child by its
  \<^verbatim>\<open>parent\<close> attribute, a parent by the values it stores), so the stores live in a
  heap and are named by their address. A store's own mapping is its list of items in
  insertion order; keys are strings, as in a theme document.

  A value held in a store, returned by a lookup or passed as a default is \<^verbatim>\<open>None\<close>, a
  \<^verbatim>\<open>ScopedDict\<close> (by reference), or anything else (a leaf: a number, a colour, a
  template). A value assigned to a key can also be a plain \<^verbatim>\<open>dict\<close>.
\<close>

type_synonym addr = nat

datatype 'v obj = PyNone | Leaf 'v | Ref addr

datatype 'v pyval = Obj "'v obj" | Dict "(string \<times> 'v pyval) list"

record 'v scoped_dict =
  items :: "(string \<times> 'v obj) list"
  parent :: "addr option"

type_synonym 'v heap = "'v scoped_dict list"

text \<open>
  The argument \<^verbatim>\<open>key\<close> of \<^verbatim>\<open>__getitem__\<close> and \<^verbatim>\<open>get\<close>: \<^verbatim>\<open>None\<close>, a list or tuple of
  keys (a path), or a single key.
\<close>

datatype key = KNone | Key string | Path "string list"

definition lookup :: "'v heap \<Rightarrow> addr \<Rightarrow> 'v scoped_dict option" where
  "lookup h s = (if s < length h then Some (h ! s) else None)"

text \<open>\<^verbatim>\<open>key in self\<close> and \<^verbatim>\<open>dict.get(self, key)\<close>: no store has the key \<^verbatim>\<open>None\<close>.\<close>

definition local_get :: "'v scoped_dict \<Rightarrow> key \<Rightarrow> 'v obj option" where
  "local_get d k = (case k of Key n \<Rightarrow> map_of (items d) n | _ \<Rightarrow> None)"

text \<open>
  \<^verbatim>\<open>ScopedDict.__getitem__\<close>. The result is \<open>None\<close> when the call does not return
  (the \<^verbatim>\<open>parent\<close> chain is a cycle) or the receiver is not an object of the heap.
  Indexing a value that is not a store with the rest of a path raises \<open>NotSubscriptable\<close>.
\<close>

partial_function (option) getitem :: "'v heap \<Rightarrow> addr \<Rightarrow> key \<Rightarrow> (error + 'v obj) option" where
  "getitem h s k =
     (case k of
        KNone \<Rightarrow> Some (Inr (Ref s))
      | Path p \<Rightarrow>
          (case p of
             [] \<Rightarrow> Some (Inr (Ref s))
           | k0 # rest \<Rightarrow>
               if rest \<noteq> [] then
                 Option.bind (getitem h s (Key k0)) (\<lambda>r.
                   case r of
                     Inl e \<Rightarrow> Some (Inl e)
                   | Inr (Ref s') \<Rightarrow> getitem h s' (Path rest)
                   | Inr _ \<Rightarrow> Some (Inl NotSubscriptable))
               else getitem h s (Key k0))
      | Key n \<Rightarrow>
          (case lookup h s of
             None \<Rightarrow> None
           | Some d \<Rightarrow>
               (case map_of (items d) n of
                  Some v \<Rightarrow> Some (Inr v)
                | None \<Rightarrow>
                    (case parent d of
                       Some p \<Rightarrow> getitem h p k
                     | None \<Rightarrow> Some (Inl KeyError)))))"

text \<open>
  \<^verbatim>\<open>ScopedDict.get\<close>. The test \<^verbatim>\<open>elif self.parent:\<close> is the truth value of the parent,
  a \<^verbatim>\<open>dict\<close>: false for \<^verbatim>\<open>None\<close> and for a parent with no items. Calling \<^verbatim>\<open>get\<close> on a
  value that is not a store raises \<^verbatim>\<open>AttributeError\<close>.
\<close>

partial_function (option) get :: "'v heap \<Rightarrow> addr \<Rightarrow> key \<Rightarrow> 'v obj \<Rightarrow> (error + 'v obj) option" where
  "get h s k dflt =
     (case k of
        Path p \<Rightarrow>
          (case p of
             [] \<Rightarrow> Some (Inl KeyError)
           | k0 # rest \<Rightarrow>
               if rest \<noteq> [] then
                 Option.bind (getitem h s (Key k0)) (\<lambda>r.
                   case r of
                     Inl e \<Rightarrow> Some (Inl e)
                   | Inr (Ref s') \<Rightarrow> get h s' (Path rest) dflt
                   | Inr _ \<Rightarrow> Some (Inl AttributeError))
               else get h s (Key k0) dflt)
      | _ \<Rightarrow>
          (case lookup h s of
             None \<Rightarrow> None
           | Some d \<Rightarrow>
               (case local_get d k of
                  Some v \<Rightarrow> Some (Inr v)
                | None \<Rightarrow>
                    (case parent d of
                       None \<Rightarrow> Some (Inr dflt)
                     | Some p \<Rightarrow>
                         (case lookup h p of
                            None \<Rightarrow> None
                          | Some pd \<Rightarrow>
                              if items pd \<noteq> [] then get h p k dflt
                              else Some (Inr dflt))))))"

text \<open>
  \<^verbatim>\<open>ScopedDict.get_path\<close>: a path of length 1 is looked up with \<^verbatim>\<open>get\<close>; on any other
  path \<^verbatim>\<open>path[0]\<close> is read, which raises \<^verbatim>\<open>IndexError\<close> on the empty path.
\<close>

fun get_path :: "'v heap \<Rightarrow> addr \<Rightarrow> string list \<Rightarrow> 'v obj \<Rightarrow> (error + 'v obj) option" where
  "get_path h s [] dflt = Some (Inl IndexError)"
| "get_path h s [k0] dflt = get h s (Key k0) dflt"
| "get_path h s (k0 # rest) dflt =
     Option.bind (getitem h s (Key k0)) (\<lambda>r.
       case r of
         Inl e \<Rightarrow> Some (Inl e)
       | Inr (Ref s') \<Rightarrow> get_path h s' rest dflt
       | Inr _ \<Rightarrow> Some (Inl AttributeError))"

text \<open>
  Chained calls: \<open>getitem_of h r k\<close> is \<^verbatim>\<open>e[k]\<close> and \<open>get_of h r k dflt\<close> is
  \<^verbatim>\<open>e.get(k, dflt)\<close> for an expression \<^verbatim>\<open>e\<close> whose evaluation gave \<open>r\<close>: the exception of
  \<^verbatim>\<open>e\<close> if it raised one, the call on the store if \<^verbatim>\<open>e\<close> is one, and the exception of
  the call on a value that is not a store.
\<close>

definition getitem_of :: "'v heap \<Rightarrow> (error + 'v obj) option \<Rightarrow> key \<Rightarrow> (error + 'v obj) option" where
  "getitem_of h r k =
     Option.bind r (\<lambda>x.
       case x of
         Inl e \<Rightarrow> Some (Inl e)
       | Inr (Ref s') \<Rightarrow> getitem h s' k
       | Inr _ \<Rightarrow> Some (Inl NotSubscriptable))"

definition get_of ::
  "'v heap \<Rightarrow> (error + 'v obj) option \<Rightarrow> key \<Rightarrow> 'v obj \<Rightarrow> (error + 'v obj) option" where
  "get_of h r k dflt =
     Option.bind r (\<lambda>x.
       case x of
         Inl e \<Rightarrow> Some (Inl e)
       | Inr (Ref s') \<Rightarrow> get h s' k dflt
       | Inr _ \<Rightarrow> Some (Inl AttributeError))"

subsection \<open>Assignment\<close>

text \<open>
  \<^verbatim>\<open>isinstance(v, dict)\<close> holds of a plain \<^verbatim>\<open>dict\<close> and of a \<^verbatim>\<open>ScopedDict\<close>, a subclass.
  \<open>non_dict\<close> gives the object an assignment stores as it is.
\<close>

definition non_dict :: "'v pyval \<Rightarrow> 'v obj option" where
  "non_dict v =
     (case v of
        Obj PyNone \<Rightarrow> Some PyNone
      | Obj (Leaf a) \<Rightarrow> Some (Leaf a)
      | Obj (Ref r) \<Rightarrow> None
      | Dict kvs \<Rightarrow> None)"

text \<open>
  \<^verbatim>\<open>arg.items()\<close> in \<^verbatim>\<open>ScopedDict.__init__\<close>, where \<^verbatim>\<open>arg\<close> is \<^verbatim>\<open>None\<close> (then \<^verbatim>\<open>{}\<close>), a
  \<^verbatim>\<open>dict\<close> or a \<^verbatim>\<open>ScopedDict\<close>. The constructor is called below on such values only.
\<close>

definition arg_items :: "'v heap \<Rightarrow> 'v pyval \<Rightarrow> (string \<times> 'v pyval) list option" where
  "arg_items h arg =
     (case arg of
        Dict kvs \<Rightarrow> Some kvs
      | Obj PyNone \<Rightarrow> Some []
      | Obj (Ref r) \<Rightarrow> map_option (\<lambda>d. map (\<lambda>(k, v). (k, Obj v)) (items d)) (lookup h r)
      | Obj (Leaf a) \<Rightarrow> None)"

text \<open>\<^verbatim>\<open>dict.__setitem__(self, key, value)\<close>: an existing key keeps its place, a new one is added last.\<close>

definition dict_setitem :: "'v heap \<Rightarrow> addr \<Rightarrow> string \<Rightarrow> 'v obj \<Rightarrow> ('v heap \<times> addr) option" where
  "dict_setitem h s k v =
     (case lookup h s of
        None \<Rightarrow> None
      | Some d \<Rightarrow> Some (h[s := d\<lparr>items := AList.update k v (items d)\<rparr>], s))"

text \<open>
  \<^verbatim>\<open>ScopedDict.__init__\<close>, its loop over the items and \<^verbatim>\<open>ScopedDict.__setitem__\<close> call
  each other; they are the three calls of one function. Each returns the heap it leaves
  and an address: the new store for \<open>New\<close>, the receiver for the other two.
  \<^item> \<open>New arg parent\<close> is \<^verbatim>\<open>ScopedDict(arg, parent)\<close>: a new empty store with that
    parent, then the loop.
  \<^item> \<open>Fill self kvs\<close> is the loop \<^verbatim>\<open>for k, v in arg.items()\<close> with \<open>kvs\<close> still to do: a
    \<^verbatim>\<open>dict\<close> value is wrapped by a \<^verbatim>\<open>ScopedDict(v, self)\<close> before it is assigned.
  \<^item> \<open>SetItem self k v\<close> is \<^verbatim>\<open>self[k] = v\<close>: a \<^verbatim>\<open>dict\<close> value is stored as a new
    \<^verbatim>\<open>ScopedDict(value, self)\<close>.
  The result is \<open>None\<close> when the call does not return (a store that contains itself is
  copied) or the receiver is not an object of the heap.
\<close>

datatype 'v call =
    New "'v pyval" "addr option"
  | Fill addr "(string \<times> 'v pyval) list"
  | SetItem addr string "'v pyval"

partial_function (option) exec :: "'v heap \<Rightarrow> 'v call \<Rightarrow> ('v heap \<times> addr) option" where
  "exec h c =
     (case c of
        New arg par \<Rightarrow>
          (case arg_items h arg of
             None \<Rightarrow> None
           | Some kvs \<Rightarrow>
               Option.bind (exec (h @ [\<lparr>items = [], parent = par\<rparr>]) (Fill (length h) kvs))
                 (\<lambda>(h', _). Some (h', length h)))
      | Fill self kvs \<Rightarrow>
          (case kvs of
             [] \<Rightarrow> Some (h, self)
           | (k, v) # rest \<Rightarrow>
               (case non_dict v of
                  None \<Rightarrow>
                    Option.bind (exec h (New v (Some self))) (\<lambda>(h1, n).
                      Option.bind (exec h1 (SetItem self k (Obj (Ref n)))) (\<lambda>(h2, _).
                        exec h2 (Fill self rest)))
                | Some a \<Rightarrow>
                    Option.bind (exec h (SetItem self k v)) (\<lambda>(h1, _).
                      exec h1 (Fill self rest))))
      | SetItem self k v \<Rightarrow>
          (case lookup h self of
             None \<Rightarrow> None
           | Some _ \<Rightarrow>
               (case non_dict v of
                  None \<Rightarrow>
                    Option.bind (exec h (New v (Some self))) (\<lambda>(h1, n).
                      dict_setitem h1 self k (Ref n))
                | Some a \<Rightarrow> dict_setitem h self k a)))"

text \<open>The store a call works on: none yet for a constructor call.\<close>

definition receiver :: "'v call \<Rightarrow> addr option" where
  "receiver c = (case c of New arg par \<Rightarrow> None | Fill s kvs \<Rightarrow> Some s | SetItem s k v \<Rightarrow> Some s)"

definition setitem :: "'v heap \<Rightarrow> addr \<Rightarrow> string \<Rightarrow> 'v pyval \<Rightarrow> 'v heap option" where
  "setitem h s k v = map_option fst (exec h (SetItem s k v))"

text \<open>
  \<^verbatim>\<open>ScopedDict.set_path\<close>: the heap it leaves, or the exception of the navigation (which
  writes nothing).
\<close>

fun set_path :: "'v heap \<Rightarrow> addr \<Rightarrow> string list \<Rightarrow> 'v pyval \<Rightarrow> (error + 'v heap) option" where
  "set_path h s [] v = Some (Inl IndexError)"
| "set_path h s [k0] v = map_option Inr (setitem h s k0 v)"
| "set_path h s (k0 # rest) v =
     Option.bind (getitem h s (Key k0)) (\<lambda>r.
       case r of
         Inl e \<Rightarrow> Some (Inl e)
       | Inr (Ref s') \<Rightarrow> set_path h s' rest v
       | Inr _ \<Rightarrow> Some (Inl AttributeError))"

text \<open>
  The nearest ancestor of \<open>s\<close> that has the key \<open>a\<close> binds it to \<open>v\<close>: the parent does,
  or the parent has no such key and its nearest ancestor with the key does.
\<close>

inductive bound_above :: "'v heap \<Rightarrow> addr \<Rightarrow> string \<Rightarrow> 'v obj \<Rightarrow> bool" where
  in_parent:
    "lookup h s = Some d \<Longrightarrow> parent d = Some p \<Longrightarrow> lookup h p = Some pd \<Longrightarrow>
     map_of (items pd) a = Some v \<Longrightarrow> bound_above h s a v"
| further:
    "lookup h s = Some d \<Longrightarrow> parent d = Some p \<Longrightarrow> lookup h p = Some pd \<Longrightarrow>
     map_of (items pd) a = None \<Longrightarrow> bound_above h p a v \<Longrightarrow> bound_above h s a v"

subsection \<open>What a call leaves in the heap\<close>

text \<open>
  The heap \<open>h'\<close> a call \<open>c\<close> leaves when started in \<open>h\<close>: no store is removed; a store
  other than the receiver is as before; the receiver has the parent it had; a constructor
  call returns the address of a store that did not exist; and \<^verbatim>\<open>self[k] = v\<close> changes
  the receiver at the key \<open>k\<close> only, binding it to \<open>v\<close>, or to a store that did not exist
  when \<open>v\<close> is a \<^verbatim>\<open>dict\<close>.
\<close>

definition exec_post :: "'v heap \<Rightarrow> 'v call \<Rightarrow> 'v heap \<times> addr \<Rightarrow> bool" where
  "exec_post h c y =
     (case y of (h', a) \<Rightarrow>
        length h \<le> length h' \<and>
        (\<forall>i<length h. receiver c \<noteq> Some i \<longrightarrow> h' ! i = h ! i) \<and>
        (\<forall>s<length h. receiver c = Some s \<longrightarrow> parent (h' ! s) = parent (h ! s)) \<and>
        (\<forall>arg par. c = New arg par \<longrightarrow> a = length h \<and> length h < length h') \<and>
        (\<forall>s k v. c = SetItem s k v \<longrightarrow>
           s < length h \<and>
           (\<forall>k'. k' \<noteq> k \<longrightarrow> map_of (items (h' ! s)) k' = map_of (items (h ! s)) k') \<and>
           (case non_dict v of
              Some x \<Rightarrow> map_of (items (h' ! s)) k = Some x
            | None \<Rightarrow> \<exists>n. length h \<le> n \<and> n < length h' \<and> map_of (items (h' ! s)) k = Some (Ref n))))"

section \<open>Theme: textures and image entries\<close>

text \<open>
  Texture objects have identity (two image entries can hold the same object), so they
  live in a list and are named by their index. \<open>cache\<close> is \<^verbatim>\<open>self._textures\<close>;
  \<open>decoded\<close> records, in order, the filenames \<^verbatim>\<open>self.loader.texture\<close> was called on.
\<close>

record texture =
  src :: string
  region :: "quad4 option"
  tex_width :: int
  tex_height :: int

record textures =
  cache :: "(string \<times> addr) list"
  objects :: "texture list"
  decoded :: "string list"

text \<open>
  The resource loader is pyglet's: a parameter, giving the size of the decoded image,
  or nothing when the resource is not found.
\<close>

type_synonym loader = "string \<Rightarrow> (int \<times> int) option"

text \<open>\<^verbatim>\<open>Theme._get_texture\<close>.\<close>

definition get_texture :: "loader \<Rightarrow> textures \<Rightarrow> string \<Rightarrow> error + textures \<times> addr" where
  "get_texture ld st filename =
     (case map_of (cache st) filename of
        Some a \<Rightarrow> Inr (st, a)
      | None \<Rightarrow>
          (case ld filename of
             None \<Rightarrow> Inl ResourceNotFound
           | Some (w, h) \<Rightarrow>
               let a = length (objects st);
                   tex = \<lparr>src = filename, region = None, tex_width = w, tex_height = h\<rparr>
               in Inr (st\<lparr>cache := AList.update filename a (cache st),
                          objects := objects st @ [tex],
                          decoded := decoded st @ [filename]\<rparr>, a)))"

text \<open>
  Modelled from the spec: pyglet's \<^verbatim>\<open>texture.get_region(x, y, width, height).get_texture()\<close>,
  "a method to extract a sub-region as a new texture object": a new object of the
  region's size.
\<close>

definition get_region :: "textures \<Rightarrow> int \<Rightarrow> int \<Rightarrow> int \<Rightarrow> int \<Rightarrow> textures \<times> addr" where
  "get_region st x y w h =
     (st\<lparr>objects := objects st @
            [\<lparr>src = [], region = None, tex_width = w, tex_height = h\<rparr>]\<rparr>,
      length (objects st))"

text \<open>
  \<^verbatim>\<open>Theme._get_texture_region\<close>: the region of the (cached) whole texture, with the
  attributes \<^verbatim>\<open>src\<close> and \<^verbatim>\<open>region\<close> set on it.
\<close>

definition get_texture_region ::
  "loader \<Rightarrow> textures \<Rightarrow> string \<Rightarrow> int \<Rightarrow> int \<Rightarrow> int \<Rightarrow> int \<Rightarrow> error + textures \<times> addr" where
  "get_texture_region ld st filename x y w h =
     (case get_texture ld st filename of
        Inl e \<Rightarrow> Inl e
      | Inr (st1, t) \<Rightarrow>
          (case get_region st1 x y w h of
             (st2, retval) \<Rightarrow>
               Inr (st2\<lparr>objects := (objects st2)
                      [retval := (objects st2 ! retval)
                         \<lparr>src := src (objects st2 ! t), region := Some (x, y, w, h)\<rparr>]\<rparr>,
                    retval)))"

text \<open>
  The arguments \<^verbatim>\<open>TextureGraphicElementTemplate.__init__\<close> is called with in this file:
  \<^verbatim>\<open>None\<close>, a number, a texture, or the theme itself. \<^verbatim>\<open>a or b\<close> takes \<open>a\<close> when it is
  true: not \<^verbatim>\<open>None\<close>, not 0; an object without \<^verbatim>\<open>__bool__\<close> and \<^verbatim>\<open>__len__\<close> (a texture) is
  true, and so is the theme, a \<^verbatim>\<open>dict\<close> that has items whenever an entry of it is being
  translated. A texture has the attributes \<^verbatim>\<open>width\<close> and \<^verbatim>\<open>height\<close>; a \<^verbatim>\<open>Theme\<close>, a number
  and \<^verbatim>\<open>None\<close> have not.
\<close>

datatype pyarg = ANone | AInt int | ATexture addr | ATheme

definition truthy :: "pyarg \<Rightarrow> bool" where
  "truthy a = (case a of ANone \<Rightarrow> False | AInt n \<Rightarrow> n \<noteq> 0 | ATexture t \<Rightarrow> True | ATheme \<Rightarrow> True)"

definition attr_width :: "textures \<Rightarrow> pyarg \<Rightarrow> error + pyarg" where
  "attr_width st a =
     (case a of ATexture t \<Rightarrow> Inr (AInt (tex_width (objects st ! t))) | _ \<Rightarrow> Inl AttributeError)"

definition attr_height :: "textures \<Rightarrow> pyarg \<Rightarrow> error + pyarg" where
  "attr_height st a =
     (case a of ATexture t \<Rightarrow> Inr (AInt (tex_height (objects st ! t))) | _ \<Rightarrow> Inl AttributeError)"

record template =
  t_texture :: pyarg
  t_width :: pyarg
  t_height :: pyarg
  t_frame :: "(addr \<times> quad4 \<times> quad4) option"

text \<open>
  \<^verbatim>\<open>TextureGraphicElementTemplate.__init__(self, texture, width=None, height=None)\<close>:
  \<^verbatim>\<open>self.width = width or texture.width\<close>, then the same for the height.
\<close>

definition texture_template_init :: "textures \<Rightarrow> pyarg \<Rightarrow> pyarg \<Rightarrow> pyarg \<Rightarrow> error + template" where
  "texture_template_init st texture w h =
     (case (if truthy w then Inr w else attr_width st texture) of
        Inl e \<Rightarrow> Inl e
      | Inr w' \<Rightarrow>
          (case (if truthy h then Inr h else attr_height st texture) of
             Inl e \<Rightarrow> Inl e
           | Inr h' \<Rightarrow>
               Inr \<lparr>t_texture = texture, t_width = w', t_height = h', t_frame = None\<rparr>))"

text \<open>
  \<^verbatim>\<open>FrameTextureGraphicElementTemplate.__init__(self, texture, frame, padding)\<close>, called
  on a texture: the base constructor, the inner texture cut from the frame, the margins.
\<close>

definition frame_template_init ::
  "textures \<Rightarrow> addr \<Rightarrow> quad4 \<Rightarrow> quad4 \<Rightarrow> error + textures \<times> template" where
  "frame_template_init st t frame pad =
     (case texture_template_init st (ATexture t) ANone ANone of
        Inl e \<Rightarrow> Inl e
      | Inr tpl \<Rightarrow>
          (case frame of (x, y, w, h) \<Rightarrow>
             (case get_region st x y w h of
                (st1, frame_texture) \<Rightarrow>
                  let tex = objects st ! t;
                      m = (x, tex_width tex - w - x, tex_height tex - h - y, y)
                  in Inr (st1, tpl\<lparr>t_frame := Some (frame_texture, m, pad)\<rparr>))))"

text \<open>
  The value of a theme entry whose key starts with \<^verbatim>\<open>image\<close>: a filename, or a mapping
  with \<^verbatim>\<open>source\<close> and optional \<^verbatim>\<open>region\<close>, \<^verbatim>\<open>frame\<close> and \<^verbatim>\<open>padding\<close>.
\<close>

datatype image_value =
    Filename string
  | Spec (source: "string option") (spec_region: "quad4 option")
         (spec_frame: "quad4 option") (spec_padding: "quad4 option")

text \<open>
  The branch \<^verbatim>\<open>if k.startswith('image')\<close> of \<^verbatim>\<open>Theme._update_with_images\<close>: the template
  assigned to \<^verbatim>\<open>target[k]\<close>. An exception leaves the loop and the constructor of the theme.
  For a filename the source calls
  \<^verbatim>\<open>TextureGraphicElementTemplate(self, self._get_texture(v))\<close>.
\<close>

definition image_entry :: "loader \<Rightarrow> textures \<Rightarrow> image_value \<Rightarrow> error + textures \<times> template" where
  "image_entry ld st v =
     (case v of
        Spec src_opt reg fr pad \<Rightarrow>
          (case src_opt of
             None \<Rightarrow> Inl KeyError
           | Some f \<Rightarrow>
               (case (case reg of
                        Some (x, y, w, h) \<Rightarrow> get_texture_region ld st f x y w h
                      | None \<Rightarrow> get_texture ld st f) of
                  Inl e \<Rightarrow> Inl e
                | Inr (st1, t) \<Rightarrow>
                    (case fr of
                       Some frame \<Rightarrow>
                         frame_template_init st1 t frame
                           (case pad of Some p \<Rightarrow> p | None \<Rightarrow> (0, 0, 0, 0))
                     | None \<Rightarrow>
                         map_sum id (Pair st1)
                           (texture_template_init st1 (ATexture t) ANone ANone))))
      | Filename f \<Rightarrow>
          (case get_texture ld st f of
             Inl e \<Rightarrow> Inl e
           | Inr (st1, t) \<Rightarrow>
               map_sum id (Pair st1) (texture_template_init st1 ATheme (ATexture t) ANone)))"

section \<open>Example stores and textures\<close>

text \<open>
  \<open>button_theme\<close> is \<^verbatim>\<open>ScopedDict({"button": {"down": {"highlight": 7}, "text_color": 255},
  "text_color": 0})\<close> with the root at address 0, \<^verbatim>\<open>button\<close> at 1 and \<^verbatim>\<open>down\<close> at 2.
  \<open>empty_scope_chain\<close> is \<^verbatim>\<open>G = ScopedDict({"K": 1})\<close>, \<^verbatim>\<open>P = ScopedDict({}, G)\<close> and
  \<^verbatim>\<open>S = ScopedDict({}, P)\<close> at the addresses 0, 1 and 2.
\<close>

definition button_theme :: "nat heap" where
  "button_theme =
     [\<lparr>items = [(''button'', Ref 1), (''text_color'', Leaf 0)], parent = None\<rparr>,
      \<lparr>items = [(''down'', Ref 2), (''text_color'', Leaf 255)], parent = Some 0\<rparr>,
      \<lparr>items = [(''highlight'', Leaf 7)], parent = Some 1\<rparr>]"

definition empty_scope_chain :: "nat heap" where
  "empty_scope_chain =
     [\<lparr>items = [(''K'', Leaf 1)], parent = None\<rparr>,
      \<lparr>items = [], parent = Some 0\<rparr>,
      \<lparr>items = [], parent = Some 1\<rparr>]"

text \<open>
  \<open>nested_behind_empty_parent\<close> is \<^verbatim>\<open>G = ScopedDict({"a": {"b": {"c": 1}}})\<close> at the
  address 0, with \<^verbatim>\<open>G["a"]\<close> at 1 and \<^verbatim>\<open>G["a"]["b"]\<close> at 2, then \<^verbatim>\<open>P = ScopedDict({}, G)\<close>
  at 3 and \<^verbatim>\<open>S = ScopedDict({}, P)\<close> at 4.
\<close>

definition nested_behind_empty_parent :: "nat heap" where
  "nested_behind_empty_parent =
     [\<lparr>items = [(''a'', Ref 1)], parent = None\<rparr>,
      \<lparr>items = [(''b'', Ref 2)], parent = Some 0\<rparr>,
      \<lparr>items = [(''c'', Leaf 1)], parent = Some 1\<rparr>,
      \<lparr>items = [], parent = Some 0\<rparr>,
      \<lparr>items = [], parent = Some 3\<rparr>]"

text \<open>No texture loaded yet, and a loader that knows two images.\<close>

definition no_textures :: textures where
  "no_textures = \<lparr>cache = [], objects = [], decoded = []\<rparr>"

definition png_loader :: loader where
  "png_loader = map_of [(''a.png'', (32, 32)), (''b.png'', (64, 16))]"

section \<open>Properties of the graphic elements\<close>

lemma cells_frame:
  "cells (frame_get_vertices (l, r, t, b) x y W H) =
     [rect x (x + l) y (y + b),
      rect (x + l) (x + W - r) y (y + b),
      rect (x + W - r) (x + W) y (y + b),
      rect x (x + l) (y + b) (y + H - t),
      rect (x + l) (x + W - r) (y + b) (y + H - t),
      rect (x + W - r) (x + W) (y + b) (y + H - t),
      rect x (x + l) (y + H - t) (y + H),
      rect (x + l) (x + W - r) (y + H - t) (y + H),
      rect (x + W - r) (x + W) (y + H - t) (y + H)]"
  by (simp add: frame_get_vertices_def rect_def Let_def)

lemma covers_rect:
  "covers (rect xa xb ya yb) px py \<longleftrightarrow> xa \<le> px \<and> px < xb \<and> ya \<le> py \<and> py < yb"
  by (simp add: covers_def rect_def)

lemma cell_size_rect: "cell_size (rect xa xb ya yb) = (xb - xa, yb - ya)"
  by (simp add: cell_size_def rect_def)

lemma frame_cells_cover_once:
  assumes "0 \<le> l" "0 \<le> r" "0 \<le> t" "0 \<le> b" "l + r \<le> W" "t + b \<le> H"
  shows "covering (cells (frame_get_vertices (l, r, t, b) x y W H)) px py =
      (if x \<le> px \<and> px < x + W \<and> y \<le> py \<and> py < y + H then 1 else 0)"
proof -
  have cx: "px < x \<or> (x \<le> px \<and> px < x + l) \<or> (x + l \<le> px \<and> px < x + W - r)
      \<or> (x + W - r \<le> px \<and> px < x + W) \<or> x + W \<le> px"
    by linarith
  have cy: "py < y \<or> (y \<le> py \<and> py < y + b) \<or> (y + b \<le> py \<and> py < y + H - t)
      \<or> (y + H - t \<le> py \<and> py < y + H) \<or> y + H \<le> py"
    by linarith
  show ?thesis
    unfolding cells_frame covering_def
    using assms cx cy by (elim disjE conjE; simp add: covers_rect)
qed

text \<open>
  Claim C1. For margins (l, r, t, b) and integer outer bounds (x, y, W, H),
  \<^verbatim>\<open>_get_vertices\<close> of a frame element returns 36 vertices that are nine axis-aligned
  cells, in rows from the bottom, with the column boundaries \<open>x\<close>, \<open>x + l\<close>,
  \<open>x + W - r\<close>, \<open>x + W\<close> and the row boundaries \<open>y\<close>, \<open>y + b\<close>, \<open>y + H - t\<close>,
  \<open>y + H\<close>. The corner cells (the cells 0, 2, 6 and 8) have the sizes \<open>l \<times> b\<close>,
  \<open>r \<times> b\<close>, \<open>l \<times> t\<close> and \<open>r \<times> t\<close>, whatever \<open>W\<close> and \<open>H\<close> are. When \<open>l + r \<le> W\<close> and
  \<open>t + b \<le> H\<close> (the margins being distances, not negative), the cells tile the outer
  rectangle with no gap and no overlap: every pixel inside it is covered by exactly one
  cell and every pixel outside it by none.
\<close>

theorem frame_vertices_tile:
  "length (frame_get_vertices (l, r, t, b) x y W H) = 72 \<and>
   cells (frame_get_vertices (l, r, t, b) x y W H) =
     [rect x (x + l) y (y + b),
      rect (x + l) (x + W - r) y (y + b),
      rect (x + W - r) (x + W) y (y + b),
      rect x (x + l) (y + b) (y + H - t),
      rect (x + l) (x + W - r) (y + b) (y + H - t),
      rect (x + W - r) (x + W) (y + b) (y + H - t),
      rect x (x + l) (y + H - t) (y + H),
      rect (x + l) (x + W - r) (y + H - t) (y + H),
      rect (x + W - r) (x + W) (y + H - t) (y + H)] \<and>
   map cell_size
     [cells (frame_get_vertices (l, r, t, b) x y W H) ! 0,
      cells (frame_get_vertices (l, r, t, b) x y W H) ! 2,
      cells (frame_get_vertices (l, r, t, b) x y W H) ! 6,
      cells (frame_get_vertices (l, r, t, b) x y W H) ! 8] =
     [(l, b), (r, b), (l, t), (r, t)] \<and>
   (0 \<le> l \<and> 0 \<le> r \<and> 0 \<le> t \<and> 0 \<le> b \<and> l + r \<le> W \<and> t + b \<le> H \<longrightarrow>
      (\<forall>px py. covering (cells (frame_get_vertices (l, r, t, b) x y W H)) px py =
         (if x \<le> px \<and> px < x + W \<and> y \<le> py \<and> py < y + H then 1 else 0)))"
proof (intro conjI impI allI)
  show "length (frame_get_vertices (l, r, t, b) x y W H) = 72"
    by (simp add: frame_get_vertices_def Let_def)
  show "map cell_size
      [cells (frame_get_vertices (l, r, t, b) x y W H) ! 0,
       cells (frame_get_vertices (l, r, t, b) x y W H) ! 2,
       cells (frame_get_vertices (l, r, t, b) x y W H) ! 6,
       cells (frame_get_vertices (l, r, t, b) x y W H) ! 8] =
      [(l, b), (r, b), (l, t), (r, t)]"
    unfolding cells_frame by (simp add: cell_size_rect)
  fix px py
  assume "0 \<le> l \<and> 0 \<le> r \<and> 0 \<le> t \<and> 0 \<le> b \<and> l + r \<le> W \<and> t + b \<le> H"
  then show "covering (cells (frame_get_vertices (l, r, t, b) x y W H)) px py =
      (if x \<le> px \<and> px < x + W \<and> y \<le> py \<and> py < y + H then 1 else 0)"
    by (intro frame_cells_cover_once) simp_all
qed (rule cells_frame)

text \<open>
  The claim for the margins (4, 6, 3, 5) and the bounds (10, 20, 100, 50): the cells,
  the four corner sizes, a pixel of the top row of cells that one cell covers, and a
  pixel right of the rectangle that none covers.
\<close>

theorem frame_vertices_tile_witness:
  "(0::int) \<le> 4 \<and> (0::int) \<le> 6 \<and> (0::int) \<le> 3 \<and> (0::int) \<le> 5 \<and>
   (4::int) + 6 \<le> 100 \<and> (3::int) + 5 \<le> 50 \<and>
   length (frame_get_vertices (4, 6, 3, 5) 10 20 100 50) = 72 \<and>
   cells (frame_get_vertices (4, 6, 3, 5) 10 20 100 50) =
      [rect 10 14 20 25, rect 14 104 20 25, rect 104 110 20 25,
       rect 10 14 25 67, rect 14 104 25 67, rect 104 110 25 67,
       rect 10 14 67 70, rect 14 104 67 70, rect 104 110 67 70] \<and>
   map cell_size
      [cells (frame_get_vertices (4, 6, 3, 5) 10 20 100 50) ! 0,
       cells (frame_get_vertices (4, 6, 3, 5) 10 20 100 50) ! 2,
       cells (frame_get_vertices (4, 6, 3, 5) 10 20 100 50) ! 6,
       cells (frame_get_vertices (4, 6, 3, 5) 10 20 100 50) ! 8] =
      [(4, 5), (6, 5), (4, 3), (6, 3)] \<and>
   covering (cells (frame_get_vertices (4, 6, 3, 5) 10 20 100 50)) 14 68 = 1 \<and>
   covering (cells (frame_get_vertices (4, 6, 3, 5) 10 20 100 50)) 110 68 = 0"
proof -
  note tile = frame_vertices_tile [of 4 6 3 5 10 20 100 50]
  have R1: "length (frame_get_vertices (4, 6, 3, 5) 10 20 100 50) = 72"
    using tile [THEN conjunct1] by simp
  have R2: "cells (frame_get_vertices (4, 6, 3, 5) 10 20 100 50) =
      [rect 10 14 20 25, rect 14 104 20 25, rect 104 110 20 25,
       rect 10 14 25 67, rect 14 104 25 67, rect 104 110 25 67,
       rect 10 14 67 70, rect 14 104 67 70, rect 104 110 67 70]"
    using tile [THEN conjunct2, THEN conjunct1] by simp
  have R3: "map cell_size
      [cells (frame_get_vertices (4, 6, 3, 5) 10 20 100 50) ! 0,
       cells (frame_get_vertices (4, 6, 3, 5) 10 20 100 50) ! 2,
       cells (frame_get_vertices (4, 6, 3, 5) 10 20 100 50) ! 6,
       cells (frame_get_vertices (4, 6, 3, 5) 10 20 100 50) ! 8] =
      [(4, 5), (6, 5), (4, 3), (6, 3)]"
    using tile [THEN conjunct2, THEN conjunct2, THEN conjunct1] by simp
  have R4: "\<forall>px py. covering (cells (frame_get_vertices (4, 6, 3, 5) 10 20 100 50)) px py =
      (if 10 \<le> px \<and> px < 110 \<and> 20 \<le> py \<and> py < 70 then 1 else 0)"
    using tile [THEN conjunct2, THEN conjunct2, THEN conjunct2] by simp
  have R5: "covering (cells (frame_get_vertices (4, 6, 3, 5) 10 20 100 50)) 14 68 = 1"
    by (simp add: R4)
  have R6: "covering (cells (frame_get_vertices (4, 6, 3, 5) 10 20 100 50)) 110 68 = 0"
    by (simp add: R4)
  show ?thesis
    by (intro conjI R1 R2 R3 R5 R6) simp_all
qed

text \<open>
  Claim C7. For a frame element with padding (l, r, t, b) and an outer texture of size
  \<open>ow \<times> oh\<close>, \<^verbatim>\<open>get_needed_size(cw, ch)\<close> is the maximum, on each axis, of the content
  plus the padding and the size of the outer texture, and \<^verbatim>\<open>get_content_size\<close> of that
  pair is at least \<open>(cw, ch)\<close> on each axis (for every content size, the non-negative
  ones among them).
\<close>

theorem needed_size_covers_content:
  "frame_get_needed_size (l, r, t, b) ow oh cw ch = (max (cw + l + r) ow, max (ch + t + b) oh) \<and>
   cw \<le> fst (frame_get_content_size (l, r, t, b)
              (fst (frame_get_needed_size (l, r, t, b) ow oh cw ch))
              (snd (frame_get_needed_size (l, r, t, b) ow oh cw ch))) \<and>
   ch \<le> snd (frame_get_content_size (l, r, t, b)
              (fst (frame_get_needed_size (l, r, t, b) ow oh cw ch))
              (snd (frame_get_needed_size (l, r, t, b) ow oh cw ch)))"
  by (simp add: frame_get_needed_size_def frame_get_content_size_def max_def)

text \<open>
  Claim C6, as the source has it. An element that was created and unloaded takes an
  \<^verbatim>\<open>update\<close> without any failure: the call returns, with the new bounds stored and
  still no vertex list.
\<close>

theorem update_after_unload_counterexample:
  "new_element TextureShape 16 16 0 =
     Inr \<lparr>x_pos = 0, y_pos = 0, width = 16, height = 16,
          vertex_list = Some [0, 0, 16, 0, 16, 16, 0, 16], group = Some 0,
          outer_width = 16, outer_height = 16, shape = TextureShape\<rparr> \<and>
   unload \<lparr>x_pos = 0, y_pos = 0, width = 16, height = 16,
          vertex_list = Some [0, 0, 16, 0, 16, 16, 0, 16], group = Some 0,
          outer_width = 16, outer_height = 16, shape = TextureShape\<rparr> =
     Inr \<lparr>x_pos = 0, y_pos = 0, width = 16, height = 16,
          vertex_list = None, group = None,
          outer_width = 16, outer_height = 16, shape = TextureShape\<rparr> \<and>
   update \<lparr>x_pos = 0, y_pos = 0, width = 16, height = 16,
          vertex_list = None, group = None,
          outer_width = 16, outer_height = 16, shape = TextureShape\<rparr> 5 6 32 24 =
     Inr \<lparr>x_pos = 5, y_pos = 6, width = 32, height = 24,
          vertex_list = None, group = None,
          outer_width = 16, outer_height = 16, shape = TextureShape\<rparr>"
  by (simp add: new_element_def load_def unload_def update_def get_vertices_def
      texture_get_vertices_def Let_def)

text \<open>
  Claim C6, amended. After \<^verbatim>\<open>unload()\<close>, \<^verbatim>\<open>update(x, y, width, height)\<close> completes
  normally: it stores the new bounds and writes no vertices, the element staying
  without a vertex list. Calling \<^verbatim>\<open>_load\<close> on an element that a \<^verbatim>\<open>_load\<close> has just
  returned, with no \<^verbatim>\<open>unload\<close> between, fails with an \<^verbatim>\<open>AssertionError\<close>.
\<close>

theorem update_after_unload_returns:
  assumes "unload e = Inr e'" and "load e0 = Inr e1"
  shows "update e' x y w h = Inr (e'\<lparr>x_pos := x, y_pos := y, width := w, height := h\<rparr>) \<and>
         vertex_list (e'\<lparr>x_pos := x, y_pos := y, width := w, height := h\<rparr>) = None \<and>
         load e1 = Inl AssertionError"
  using assms
  by (auto simp: unload_def update_def load_def Let_def split: option.splits if_splits)

theorem update_after_unload_returns_witness:
  "unload \<lparr>x_pos = 0, y_pos = 0, width = 16, height = 16,
          vertex_list = Some [0, 0, 16, 0, 16, 16, 0, 16], group = Some 0,
          outer_width = 16, outer_height = 16, shape = TextureShape\<rparr> =
     Inr \<lparr>x_pos = 0, y_pos = 0, width = 16, height = 16,
          vertex_list = None, group = None,
          outer_width = 16, outer_height = 16, shape = TextureShape\<rparr> \<and>
   load \<lparr>x_pos = 0, y_pos = 0, width = 16, height = 16,
          vertex_list = None, group = None,
          outer_width = 16, outer_height = 16, shape = TextureShape\<rparr> =
     Inr \<lparr>x_pos = 0, y_pos = 0, width = 16, height = 16,
          vertex_list = Some [0, 0, 16, 0, 16, 16, 0, 16], group = None,
          outer_width = 16, outer_height = 16, shape = TextureShape\<rparr> \<and>
   update \<lparr>x_pos = 0, y_pos = 0, width = 16, height = 16,
          vertex_list = None, group = None,
          outer_width = 16, outer_height = 16, shape = TextureShape\<rparr> 5 6 32 24 =
     Inr \<lparr>x_pos = 5, y_pos = 6, width = 32, height = 24,
          vertex_list = None, group = None,
          outer_width = 16, outer_height = 16, shape = TextureShape\<rparr> \<and>
   load \<lparr>x_pos = 0, y_pos = 0, width = 16, height = 16,
          vertex_list = Some [0, 0, 16, 0, 16, 16, 0, 16], group = None,
          outer_width = 16, outer_height = 16, shape = TextureShape\<rparr> =
     Inl AssertionError"
proof -
  have u: "unload \<lparr>x_pos = 0, y_pos = 0, width = 16, height = 16,
          vertex_list = Some [0, 0, 16, 0, 16, 16, 0, 16], group = Some 0,
          outer_width = 16, outer_height = 16, shape = TextureShape\<rparr> =
     Inr \<lparr>x_pos = 0, y_pos = 0, width = 16, height = 16,
          vertex_list = None, group = None,
          outer_width = 16, outer_height = 16, shape = TextureShape\<rparr>"
    by (simp add: unload_def)
  have l: "load \<lparr>x_pos = 0, y_pos = 0, width = 16, height = 16,
          vertex_list = None, group = None,
          outer_width = 16, outer_height = 16, shape = TextureShape\<rparr> =
     Inr \<lparr>x_pos = 0, y_pos = 0, width = 16, height = 16,
          vertex_list = Some [0, 0, 16, 0, 16, 16, 0, 16], group = None,
          outer_width = 16, outer_height = 16, shape = TextureShape\<rparr>"
    by (simp add: load_def get_vertices_def texture_get_vertices_def)
  show ?thesis
    using update_after_unload_returns [OF u l, of 5 6 32 24] u l by simp
qed

section \<open>Properties of the scoped dictionary\<close>

subsection \<open>The methods, one case at a time\<close>

lemma getitem_KNone: "getitem h s KNone = Some (Inr (Ref s))"
  by (subst getitem.simps) simp

lemma getitem_Path_Nil: "getitem h s (Path []) = Some (Inr (Ref s))"
  by (subst getitem.simps) simp

lemma getitem_Path_single: "getitem h s (Path [k]) = getitem h s (Key k)"
  by (subst getitem.simps) simp

lemma getitem_Path_Cons:
  "rest \<noteq> [] \<Longrightarrow> getitem h s (Path (k # rest)) = getitem_of h (getitem h s (Key k)) (Path rest)"
  by (subst getitem.simps) (simp add: getitem_of_def)

lemma getitem_Key:
  "getitem h s (Key n) =
     (case lookup h s of
        None \<Rightarrow> None
      | Some d \<Rightarrow>
          (case map_of (items d) n of
             Some v \<Rightarrow> Some (Inr v)
           | None \<Rightarrow> (case parent d of Some p \<Rightarrow> getitem h p (Key n) | None \<Rightarrow> Some (Inl KeyError))))"
  by (subst getitem.simps) simp

lemma get_Path_Nil: "get h s (Path []) dflt = Some (Inl KeyError)"
  by (subst get.simps) simp

lemma get_Path_single: "get h s (Path [k]) dflt = get h s (Key k) dflt"
  by (subst get.simps) simp

lemma get_Path_Cons:
  "rest \<noteq> [] \<Longrightarrow> get h s (Path (k # rest)) dflt = get_of h (getitem h s (Key k)) (Path rest) dflt"
  by (subst get.simps) (simp add: get_of_def)

lemma get_Key:
  "get h s (Key n) dflt =
     (case lookup h s of
        None \<Rightarrow> None
      | Some d \<Rightarrow>
          (case map_of (items d) n of
             Some v \<Rightarrow> Some (Inr v)
           | None \<Rightarrow>
               (case parent d of
                  None \<Rightarrow> Some (Inr dflt)
                | Some p \<Rightarrow>
                    (case lookup h p of
                       None \<Rightarrow> None
                     | Some pd \<Rightarrow> if items pd \<noteq> [] then get h p (Key n) dflt else Some (Inr dflt)))))"
  by (subst get.simps) (simp add: local_get_def split: option.splits)

lemma exec_New:
  "exec h (New arg par) =
     (case arg_items h arg of
        None \<Rightarrow> None
      | Some kvs \<Rightarrow>
          Option.bind (exec (h @ [\<lparr>items = [], parent = par\<rparr>]) (Fill (length h) kvs))
            (\<lambda>(h', _). Some (h', length h)))"
  by (subst exec.simps) simp

lemma exec_Fill_Nil: "exec h (Fill s []) = Some (h, s)"
  by (subst exec.simps) simp

lemma exec_Fill_Cons:
  "exec h (Fill s ((k, v) # rest)) =
     (case non_dict v of
        None \<Rightarrow>
          Option.bind (exec h (New v (Some s))) (\<lambda>(h1, n).
            Option.bind (exec h1 (SetItem s k (Obj (Ref n)))) (\<lambda>(h2, _).
              exec h2 (Fill s rest)))
      | Some a \<Rightarrow>
          Option.bind (exec h (SetItem s k v)) (\<lambda>(h1, _). exec h1 (Fill s rest)))"
  by (subst exec.simps) simp

lemma exec_SetItem:
  "exec h (SetItem s k v) =
     (case lookup h s of
        None \<Rightarrow> None
      | Some _ \<Rightarrow>
          (case non_dict v of
             None \<Rightarrow>
               Option.bind (exec h (New v (Some s))) (\<lambda>(h1, n). dict_setitem h1 s k (Ref n))
           | Some a \<Rightarrow> dict_setitem h s k a))"
  by (subst exec.simps) simp

lemmas eval_simps = getitem_KNone getitem_Path_Nil getitem_Path_single getitem_Path_Cons
  getitem_Key get_Path_Nil get_Path_single get_Path_Cons get_Key getitem_of_def get_of_def
  lookup_def exec_New exec_Fill_Nil exec_Fill_Cons exec_SetItem non_dict_def arg_items_def
  dict_setitem_def setitem_def

subsection \<open>Single keys\<close>

text \<open>
  What \<^verbatim>\<open>get\<close> does on a single key: the local value if there is one; the default if
  there is no parent; the parent's answer if the parent has items; the default if the
  parent has none.
\<close>

lemma get_local_value:
  "lookup h s = Some d \<Longrightarrow> map_of (items d) K = Some v \<Longrightarrow> get h s (Key K) dflt = Some (Inr v)"
  by (simp add: get_Key)

lemma get_without_parent:
  "lookup h s = Some d \<Longrightarrow> map_of (items d) K = None \<Longrightarrow> parent d = None \<Longrightarrow>
   get h s (Key K) dflt = Some (Inr dflt)"
  by (simp add: get_Key)

lemma get_from_parent_with_items:
  "lookup h s = Some d \<Longrightarrow> map_of (items d) K = None \<Longrightarrow> parent d = Some p \<Longrightarrow>
   lookup h p = Some pd \<Longrightarrow> items pd \<noteq> [] \<Longrightarrow>
   get h s (Key K) dflt = get h p (Key K) dflt"
  by (simp add: get_Key)

lemma get_parent_without_items:
  "lookup h s = Some d \<Longrightarrow> map_of (items d) K = None \<Longrightarrow> parent d = Some p \<Longrightarrow>
   lookup h p = Some pd \<Longrightarrow> items pd = [] \<Longrightarrow>
   get h s (Key K) dflt = Some (Inr dflt)"
  by (simp add: get_Key)

text \<open>
  Claim C2, evaluated where the source departs from it. In \<open>empty_scope_chain\<close> the key
  \<^verbatim>\<open>K\<close> is absent in \<^verbatim>\<open>S\<close> and \<^verbatim>\<open>S\<close> has the parent \<^verbatim>\<open>P\<close>, yet \<^verbatim>\<open>S.get("K", 0)\<close>
  returns the default 0 while \<^verbatim>\<open>P.get("K", 0)\<close> returns 1, the value in \<^verbatim>\<open>P\<close>'s parent
  (which \<^verbatim>\<open>S["K"]\<close> finds too): \<^verbatim>\<open>P\<close> has no items, so \<^verbatim>\<open>elif self.parent:\<close> is false.
\<close>

theorem get_skips_empty_parent:
  "get empty_scope_chain 2 (Key ''K'') (Leaf 0) = Some (Inr (Leaf 0)) \<and>
   get empty_scope_chain 1 (Key ''K'') (Leaf 0) = Some (Inr (Leaf 1)) \<and>
   getitem empty_scope_chain 2 (Key ''K'') = Some (Inr (Leaf 1))"
  by (simp add: empty_scope_chain_def eval_simps)

text \<open>A value that \<^verbatim>\<open>get\<close> finds (one that is not the default) is the value indexing finds.\<close>

lemma get_found_getitem_aux:
  assumes "get h s k dflt = Some y"
  shows "\<forall>a v. k = Key a \<longrightarrow> y = Inr v \<longrightarrow> v \<noteq> dflt \<longrightarrow> getitem h s (Key a) = Some (Inr v)"
proof (rule get.raw_induct [OF _ assms], goal_cases)
  case (1 get' h s k dflt y)
  note IH = "1"(1) and step = "1"(2)
  show ?case
  proof (intro allI impI)
    fix a v
    assume k: "k = Key a" and y: "y = Inr v" and v: "v \<noteq> dflt"
    show "getitem h s (Key a) = Some (Inr v)"
      using step IH k y v
      by (subst getitem_Key)
         (auto simp: local_get_def split: option.splits if_splits)
  qed
qed

lemma get_found_getitem:
  "get h s (Key a) dflt = Some (Inr v) \<Longrightarrow> v \<noteq> dflt \<Longrightarrow> getitem h s (Key a) = Some (Inr v)"
  using get_found_getitem_aux by blast

subsection \<open>Paths\<close>

text \<open>
  Claim C9. \<^verbatim>\<open>get\<close> with a path of length 0 raises \<^verbatim>\<open>KeyError\<close>; indexing with the empty
  path returns the store itself, so \<^verbatim>\<open>S[[]][K]\<close> is \<^verbatim>\<open>S[K]\<close> for every key \<open>K\<close>.
\<close>

theorem get_empty_path_getitem_empty_path:
  "get h s (Path []) dflt = Some (Inl KeyError) \<and>
   getitem h s (Path []) = Some (Inr (Ref s)) \<and>
   getitem_of h (getitem h s (Path [])) (Key K) = getitem h s (Key K)"
  by (simp add: get_Path_Nil getitem_Path_Nil getitem_of_def)

text \<open>
  Where \<^verbatim>\<open>S.get(a)\<close> and \<^verbatim>\<open>S.get(a).get(b)\<close> themselves return nested stores, the three
  expressions \<^verbatim>\<open>S.get([a, b, c], d)\<close>, \<^verbatim>\<open>S.get(a).get([b, c], d)\<close> and
  \<^verbatim>\<open>S.get(a).get(b).get([c], d)\<close> are equal.
\<close>

lemma get_chain_when_get_resolves:
  assumes "get h s (Key a) PyNone = Some (Inr (Ref n1))"
      and "get h n1 (Key b) PyNone = Some (Inr (Ref n2))"
  shows "get h s (Path [a, b, c]) dflt = get_of h (get h s (Key a) PyNone) (Path [b, c]) dflt \<and>
         get h s (Path [a, b, c]) dflt =
           get_of h (get_of h (get h s (Key a) PyNone) (Key b) PyNone) (Path [c]) dflt"
proof -
  have a: "getitem h s (Key a) = Some (Inr (Ref n1))"
    using get_found_getitem [OF assms(1)] by simp
  have b: "getitem h n1 (Key b) = Some (Inr (Ref n2))"
    using get_found_getitem [OF assms(2)] by simp
  show ?thesis
    using assms a b by (simp add: get_Path_Cons get_of_def)
qed

text \<open>
  Claim C8, evaluated where the source departs from it. In \<open>nested_behind_empty_parent\<close>
  every segment of the path resolves through the scope chain of \<^verbatim>\<open>S\<close>: \<^verbatim>\<open>S["a"]\<close> is the
  nested store at 1, \<^verbatim>\<open>S["a"]["b"]\<close> the nested store at 2, and \<^verbatim>\<open>S.get(["a", "b", "c"])\<close>
  returns the value 1. But \<^verbatim>\<open>S.get("a")\<close> returns \<^verbatim>\<open>None\<close>, because the parent \<^verbatim>\<open>P\<close> of
  \<^verbatim>\<open>S\<close> has no items and \<^verbatim>\<open>elif self.parent:\<close> is false, so \<^verbatim>\<open>S.get("a").get(["b", "c"])\<close>
  and \<^verbatim>\<open>S.get("a").get("b").get(["c"])\<close> raise \<^verbatim>\<open>AttributeError\<close>: the three expressions
  are not equal.
\<close>

theorem get_path_not_associative:
  "getitem nested_behind_empty_parent 4 (Key ''a'') = Some (Inr (Ref 1)) \<and>
   getitem nested_behind_empty_parent 1 (Key ''b'') = Some (Inr (Ref 2)) \<and>
   getitem nested_behind_empty_parent 2 (Key ''c'') = Some (Inr (Leaf 1)) \<and>
   get nested_behind_empty_parent 4 (Path [''a'', ''b'', ''c'']) PyNone = Some (Inr (Leaf 1)) \<and>
   get nested_behind_empty_parent 4 (Key ''a'') PyNone = Some (Inr PyNone) \<and>
   get_of nested_behind_empty_parent (get nested_behind_empty_parent 4 (Key ''a'') PyNone)
     (Path [''b'', ''c'']) PyNone = Some (Inl AttributeError) \<and>
   get_of nested_behind_empty_parent
     (get_of nested_behind_empty_parent (get nested_behind_empty_parent 4 (Key ''a'') PyNone)
        (Key ''b'') PyNone)
     (Path [''c'']) PyNone = Some (Inl AttributeError)"
  by (simp add: nested_behind_empty_parent_def eval_simps)

subsection \<open>Assignment through a path\<close>

lemma dict_setitem_Some:
  "dict_setitem h s k v = Some (h', a) \<longleftrightarrow>
     s < length h \<and> a = s \<and> h' = h[s := (h ! s)\<lparr>items := AList.update k v (items (h ! s))\<rparr>]"
  by (auto simp: dict_setitem_def lookup_def)
lemma exec_post_New:
  assumes "exec_post (h @ [d]) (Fill (length h) kvs) (h', a)"
  shows "exec_post h (New arg par) (h', length h)"
  using assms by (auto simp: exec_post_def receiver_def nth_append)

lemma exec_post_Fill_Nil: "exec_post h (Fill s []) (h, s)"
  by (simp add: exec_post_def receiver_def)

lemma exec_post_Fill_plain:
  assumes "exec_post h (SetItem s k v) (h1, a1)" "exec_post h1 (Fill s rest) (h2, a2)"
  shows "exec_post h (Fill s ((k, v) # rest)) (h2, a2)"
  using assms by (auto simp: exec_post_def receiver_def)

lemma exec_post_Fill_dict:
  assumes "exec_post h (New v par) (h1, n)" "exec_post h1 (SetItem s k w) (h2, a2)"
    "exec_post h2 (Fill s rest) (h3, a3)"
  shows "exec_post h (Fill s ((k, v) # rest)) (h3, a3)"
  using assms by (auto simp: exec_post_def receiver_def)

lemma exec_post_SetItem_plain:
  assumes "non_dict v = Some x" "dict_setitem h s k x = Some (h', a)"
  shows "exec_post h (SetItem s k v) (h', a)"
  using assms
  by (auto simp: exec_post_def receiver_def dict_setitem_Some update_conv')

lemma exec_post_SetItem_dict:
  assumes "non_dict v = None" "s < length h" "exec_post h (New v par) (h1, n)"
    "dict_setitem h1 s k (Ref n) = Some (h', a)"
  shows "exec_post h (SetItem s k v) (h', a)"
  using assms
  by (auto simp: exec_post_def receiver_def dict_setitem_Some update_conv')

lemma exec_leaves:
  assumes "exec h c = Some y"
  shows "exec_post h c y"
proof (rule exec.raw_induct [OF _ assms], goal_cases)
  case (1 exec' h c y)
  note IH = "1"(1) and step = "1"(2)
  obtain hy ay where y: "y = (hy, ay)" by (cases y)
  show ?case
  proof (cases c)
    case (New arg par)
    from step have st: "(case arg_items h arg of
          None \<Rightarrow> None
        | Some kvs \<Rightarrow>
            Option.bind (exec' (h @ [\<lparr>items = [], parent = par\<rparr>]) (Fill (length h) kvs))
              (\<lambda>(h', _). Some (h', length h))) = Some (hy, ay)"
      unfolding New y by simp
    then obtain kvs where kvs: "arg_items h arg = Some kvs"
      by (cases "arg_items h arg") simp_all
    from st kvs have
      "Option.bind (exec' (h @ [\<lparr>items = [], parent = par\<rparr>]) (Fill (length h) kvs))
         (\<lambda>(h', _). Some (h', length h)) = Some (hy, ay)"
      by simp
    then obtain r where
      r: "exec' (h @ [\<lparr>items = [], parent = par\<rparr>]) (Fill (length h) kvs) = Some r" and
      r': "(case r of (h', _) \<Rightarrow> Some (h', length h)) = Some (hy, ay)"
      unfolding bind_eq_Some_conv by blast
    from r' have "fst r = hy" and ay: "ay = length h"
      by (cases r; simp)+
    with r have e:
      "exec' (h @ [\<lparr>items = [], parent = par\<rparr>]) (Fill (length h) kvs) = Some (hy, snd r)"
      by (cases r) simp
    show ?thesis
      unfolding New y ay by (rule exec_post_New [OF IH [OF e]])
  next
    case (Fill s kvs)
    show ?thesis
    proof (cases kvs)
      case Nil
      with step show ?thesis
        unfolding Fill by (auto simp: exec_post_Fill_Nil)
    next
      case (Cons kv rest)
      obtain k v where kv: "kv = (k, v)" by (cases kv)
      show ?thesis
      proof (cases "non_dict v")
        case None
        from step have st: "Option.bind (exec' h (New v (Some s))) (\<lambda>(h1, n).
            Option.bind (exec' h1 (SetItem s k (Obj (Ref n)))) (\<lambda>(h2, _).
              exec' h2 (Fill s rest))) = Some (hy, ay)"
          unfolding Fill Cons kv y using None by simp
        then obtain h1 n where
          e1: "exec' h (New v (Some s)) = Some (h1, n)" and
          st2: "Option.bind (exec' h1 (SetItem s k (Obj (Ref n)))) (\<lambda>(h2, _).
              exec' h2 (Fill s rest)) = Some (hy, ay)"
          by (auto simp: bind_eq_Some_conv)
        from st2 obtain h2 a2 where
          e2: "exec' h1 (SetItem s k (Obj (Ref n))) = Some (h2, a2)" and
          e3: "exec' h2 (Fill s rest) = Some (hy, ay)"
          by (auto simp: bind_eq_Some_conv)
        show ?thesis
          unfolding Fill Cons kv y
          by (rule exec_post_Fill_dict [OF IH [OF e1] IH [OF e2] IH [OF e3]])
      next
        case (Some x)
        from step have st: "Option.bind (exec' h (SetItem s k v)) (\<lambda>(h1, _).
            exec' h1 (Fill s rest)) = Some (hy, ay)"
          unfolding Fill Cons kv y using Some by simp
        then obtain h1 a1 where
          e1: "exec' h (SetItem s k v) = Some (h1, a1)" and
          e2: "exec' h1 (Fill s rest) = Some (hy, ay)"
          by (auto simp: bind_eq_Some_conv)
        show ?thesis
          unfolding Fill Cons kv y
          by (rule exec_post_Fill_plain [OF IH [OF e1] IH [OF e2]])
      qed
    qed
  next
    case (SetItem s k v)
    from step have st: "(case lookup h s of
          None \<Rightarrow> None
        | Some _ \<Rightarrow>
            (case non_dict v of
               None \<Rightarrow>
                 Option.bind (exec' h (New v (Some s))) (\<lambda>(h1, n).
                   dict_setitem h1 s k (Ref n))
             | Some a \<Rightarrow> dict_setitem h s k a)) = Some (hy, ay)"
      unfolding SetItem y by simp
    then have s: "s < length h"
      by (cases "s < length h") (simp_all add: lookup_def)
    then have l: "lookup h s = Some (h ! s)"
      by (simp add: lookup_def)
    show ?thesis
    proof (cases "non_dict v")
      case None
      with st l obtain h1 n where
        e1: "exec' h (New v (Some s)) = Some (h1, n)" and
        e2: "dict_setitem h1 s k (Ref n) = Some (hy, ay)"
        by (auto simp: bind_eq_Some_conv)
      show ?thesis
        unfolding SetItem y
        by (rule exec_post_SetItem_dict [OF None s IH [OF e1] e2])
    next
      case (Some x)
      with st l have e: "dict_setitem h s k x = Some (hy, ay)"
        by simp
      show ?thesis
        unfolding SetItem y
        by (rule exec_post_SetItem_plain [OF Some e])
    qed
  qed
qed

lemma setitem_post:
  assumes "setitem h s k v = Some h'"
  shows "s < length h \<and> length h \<le> length h' \<and>
     (\<forall>i<length h. i \<noteq> s \<longrightarrow> h' ! i = h ! i) \<and>
     parent (h' ! s) = parent (h ! s) \<and>
     (\<forall>k'. k' \<noteq> k \<longrightarrow> map_of (items (h' ! s)) k' = map_of (items (h ! s)) k') \<and>
     (case non_dict v of
        Some x \<Rightarrow> map_of (items (h' ! s)) k = Some x
      | None \<Rightarrow> \<exists>n. length h \<le> n \<and> n < length h' \<and> map_of (items (h' ! s)) k = Some (Ref n))"
proof -
  from assms obtain a where "exec h (SetItem s k v) = Some (h', a)"
    by (auto simp: setitem_def)
  from exec_leaves [OF this] show ?thesis
    by (simp add: exec_post_def receiver_def)
qed

lemma bind_store_Inr:
  assumes "Option.bind r (\<lambda>x. case x of
               Inl e \<Rightarrow> Some (Inl e)
             | Inr (Ref s') \<Rightarrow> f s'
             | Inr _ \<Rightarrow> Some (Inl err)) = Some (Inr y)"
  shows "\<exists>s'. r = Some (Inr (Ref s')) \<and> f s' = Some (Inr y)"
proof (cases r)
  case None
  with assms show ?thesis by simp
next
  case (Some x)
  show ?thesis
  proof (cases x)
    case (Inl e)
    with assms Some show ?thesis by simp
  next
    case (Inr z)
    with assms Some show ?thesis by (cases z) simp_all
  qed
qed

text \<open>
  Claim C3, as the source has it. In \<open>button_theme\<close>, with \<^verbatim>\<open>S\<close> the store \<^verbatim>\<open>down\<close> (its
  parent is \<^verbatim>\<open>button\<close>, which has no key \<^verbatim>\<open>k\<close>), \<^verbatim>\<open>S.set_path(["button", "k"], 9)\<close>
  resolves the leading segment through the scope chain to \<^verbatim>\<open>button\<close> and inserts \<^verbatim>\<open>k\<close>
  there: into the parent of \<^verbatim>\<open>S\<close>.
\<close>

theorem set_path_writes_ancestor_counterexample:
  "parent (button_theme ! 2) = Some 1 \<and>
   map_of (items (button_theme ! 1)) ''k'' = None \<and>
   set_path button_theme 2 [''button'', ''k''] (Obj (Leaf 9)) =
     Some (Inr
       [\<lparr>items = [(''button'', Ref 1), (''text_color'', Leaf 0)], parent = None\<rparr>,
        \<lparr>items = [(''down'', Ref 2), (''text_color'', Leaf 255), (''k'', Leaf 9)],
         parent = Some 0\<rparr>,
        \<lparr>items = [(''highlight'', Leaf 7)], parent = Some 1\<rparr>])"
  by (simp add: button_theme_def eval_simps)

text \<open>
  Claim C3, amended. When \<^verbatim>\<open>S.set_path(p, v)\<close> returns, it has written into exactly one
  of the stores that existed: the store \<open>t\<close> that indexing \<^verbatim>\<open>S\<close> with the leading
  segments of \<open>p\<close> yields, which is \<^verbatim>\<open>S\<close> itself for a path of one segment. No store is
  removed, every store other than \<open>t\<close> is unchanged (so after \<^verbatim>\<open>S.set_path([a], v)\<close> the
  parent of \<^verbatim>\<open>S\<close> and every other ancestor is as before), \<open>t\<close> keeps its parent and
  every key but the last segment of \<open>p\<close>, and that key is bound to \<open>v\<close>, or to a new store
  when \<open>v\<close> is a \<^verbatim>\<open>dict\<close>. The store \<open>t\<close> can be an ancestor of \<^verbatim>\<open>S\<close>.
\<close>

theorem set_path_writes_one_store:
  assumes "set_path h s p v = Some (Inr h')"
  shows "\<exists>t. getitem h s (Path (butlast p)) = Some (Inr (Ref t)) \<and>
     (length p = 1 \<longrightarrow> t = s) \<and>
     t < length h \<and> length h \<le> length h' \<and>
     (\<forall>i<length h. i \<noteq> t \<longrightarrow> h' ! i = h ! i) \<and>
     parent (h' ! t) = parent (h ! t) \<and>
     (\<forall>k. k \<noteq> last p \<longrightarrow> map_of (items (h' ! t)) k = map_of (items (h ! t)) k) \<and>
     (case non_dict v of
        Some x \<Rightarrow> map_of (items (h' ! t)) (last p) = Some x
      | None \<Rightarrow> \<exists>n. length h \<le> n \<and> n < length h' \<and>
                  map_of (items (h' ! t)) (last p) = Some (Ref n))"
  using assms
proof (induction h s p v rule: set_path.induct)
  case (1 h s v)
  then show ?case by simp
next
  case (2 h s k0 v)
  then obtain h1 where "setitem h s k0 v = Some h1" and "h1 = h'"
    by auto
  with setitem_post [of h s k0 v h'] show ?case
    by (auto simp: getitem_Path_Nil split: option.splits)
next
  case (3 h s k0 k1 rest v)
  from "3.prems" obtain s' where
    g: "getitem h s (Key k0) = Some (Inr (Ref s'))" and
    r: "set_path h s' (k1 # rest) v = Some (Inr h')"
    using bind_store_Inr [where r = "getitem h s (Key k0)"
        and f = "\<lambda>s'. set_path h s' (k1 # rest) v" and y = h' and err = AttributeError]
    by auto
  from "3.IH" [OF g refl refl r]
  obtain t where t: "getitem h s' (Path (butlast (k1 # rest))) = Some (Inr (Ref t))"
    and rest: "t < length h \<and> length h \<le> length h' \<and>
     (\<forall>i<length h. i \<noteq> t \<longrightarrow> h' ! i = h ! i) \<and>
     parent (h' ! t) = parent (h ! t) \<and>
     (\<forall>k. k \<noteq> last (k1 # rest) \<longrightarrow> map_of (items (h' ! t)) k = map_of (items (h ! t)) k) \<and>
     (case non_dict v of
        Some x \<Rightarrow> map_of (items (h' ! t)) (last (k1 # rest)) = Some x
      | None \<Rightarrow> \<exists>n. length h \<le> n \<and> n < length h' \<and>
                  map_of (items (h' ! t)) (last (k1 # rest)) = Some (Ref n))"
    by blast
  have "getitem h s (Path (butlast (k0 # k1 # rest))) = Some (Inr (Ref t))"
  proof (cases rest)
    case Nil
    with t g show ?thesis
      by (simp add: getitem_Path_single getitem_Path_Nil)
  next
    case (Cons k2 rest')
    with t g show ?thesis
      by (simp add: getitem_Path_Cons getitem_of_def)
  qed
  moreover have "last (k0 # k1 # rest) = last (k1 # rest)"
    by simp
  ultimately show ?case
    using rest by (intro exI [of _ t]) (simp del: last.simps butlast.simps cong: option.case_cong)
qed

text \<open>
  The amended claim at \<^verbatim>\<open>S = button_theme["button"]["down"]\<close>: a path of two segments
  that writes into \<^verbatim>\<open>button\<close>, and a path of one segment that binds a \<^verbatim>\<open>dict\<close> in \<^verbatim>\<open>S\<close>.
\<close>

theorem set_path_writes_one_store_witness:
  "set_path button_theme 2 [''button'', ''k''] (Obj (Leaf 9)) =
     Some (Inr
       [\<lparr>items = [(''button'', Ref 1), (''text_color'', Leaf 0)], parent = None\<rparr>,
        \<lparr>items = [(''down'', Ref 2), (''text_color'', Leaf 255), (''k'', Leaf 9)],
         parent = Some 0\<rparr>,
        \<lparr>items = [(''highlight'', Leaf 7)], parent = Some 1\<rparr>]) \<and>
   getitem button_theme 2 (Path (butlast [''button'', ''k''])) = Some (Inr (Ref 1)) \<and>
   set_path button_theme 2 [''k''] (Dict [(''x'', Obj (Leaf 1)), (''y'', Dict [])]) =
     Some (Inr
       [\<lparr>items = [(''button'', Ref 1), (''text_color'', Leaf 0)], parent = None\<rparr>,
        \<lparr>items = [(''down'', Ref 2), (''text_color'', Leaf 255)], parent = Some 0\<rparr>,
        \<lparr>items = [(''highlight'', Leaf 7), (''k'', Ref 3)], parent = Some 1\<rparr>,
        \<lparr>items = [(''x'', Leaf 1), (''y'', Ref 5)], parent = Some 2\<rparr>,
        \<lparr>items = [], parent = Some 3\<rparr>,
        \<lparr>items = [], parent = Some 3\<rparr>]) \<and>
   getitem button_theme 2 (Path (butlast [''k''])) = Some (Inr (Ref 2))"
proof -
  have p: "set_path button_theme 2 [''button'', ''k''] (Obj (Leaf 9)) =
     Some (Inr
       [\<lparr>items = [(''button'', Ref 1), (''text_color'', Leaf 0)], parent = None\<rparr>,
        \<lparr>items = [(''down'', Ref 2), (''text_color'', Leaf 255), (''k'', Leaf 9)],
         parent = Some 0\<rparr>,
        \<lparr>items = [(''highlight'', Leaf 7)], parent = Some 1\<rparr>])"
    by (simp add: button_theme_def eval_simps)
  have q: "set_path button_theme 2 [''k''] (Dict [(''x'', Obj (Leaf 1)), (''y'', Dict [])]) =
     Some (Inr
       [\<lparr>items = [(''button'', Ref 1), (''text_color'', Leaf 0)], parent = None\<rparr>,
        \<lparr>items = [(''down'', Ref 2), (''text_color'', Leaf 255)], parent = Some 0\<rparr>,
        \<lparr>items = [(''highlight'', Leaf 7), (''k'', Ref 3)], parent = Some 1\<rparr>,
        \<lparr>items = [(''x'', Leaf 1), (''y'', Ref 5)], parent = Some 2\<rparr>,
        \<lparr>items = [], parent = Some 3\<rparr>,
        \<lparr>items = [], parent = Some 3\<rparr>])"
    by (simp add: button_theme_def eval_simps)
  from set_path_writes_one_store [OF p]
  have g1: "getitem button_theme 2 (Path (butlast [''button'', ''k''])) = Some (Inr (Ref 1))"
    by (simp add: button_theme_def eval_simps)
  from set_path_writes_one_store [OF q]
  have g2: "getitem button_theme 2 (Path (butlast [''k''])) = Some (Inr (Ref 2))"
    by auto
  show ?thesis
    by (intro conjI p q g1 g2)
qed

subsection \<open>Intermediate segments\<close>

lemma bound_above_getitem:
  assumes "bound_above h s a v"
  shows "lookup h s = Some d \<Longrightarrow> map_of (items d) a = None \<Longrightarrow> getitem h s (Key a) = Some (Inr v)"
  using assms
proof (induction arbitrary: d rule: bound_above.induct)
  case (in_parent h s d' p pd a v)
  then show ?case
    by (subst getitem_Key, simp, subst getitem_Key, simp)
next
  case (further h s d' p pd a v)
  from further.IH [OF further.hyps(3) further.hyps(4)] further.hyps further.prems
  show ?case
    by (subst getitem_Key) simp
qed

text \<open>
  Claim C10. When the key \<open>a\<close> is absent in \<^verbatim>\<open>S\<close> and the nearest ancestor of \<^verbatim>\<open>S\<close> that
  has it binds it to a nested store \<^verbatim>\<open>N\<close>, then \<^verbatim>\<open>S[[a, b]]\<close> is \<^verbatim>\<open>N[b]\<close>,
  \<^verbatim>\<open>S.get([a, b], d)\<close> and \<^verbatim>\<open>S.get_path([a, b], d)\<close> are \<^verbatim>\<open>N.get(b, d)\<close>, and
  \<^verbatim>\<open>S.set_path([a, b], v)\<close> is the assignment \<^verbatim>\<open>N[b] = v\<close>: all four go through the
  ancestor's nested store.
\<close>

theorem path_segments_fall_back:
  assumes "lookup h s = Some d" and "map_of (items d) a = None" and "bound_above h s a (Ref n)"
  shows "getitem h s (Path [a, b]) = getitem h n (Key b) \<and>
         get h s (Path [a, b]) dflt = get h n (Key b) dflt \<and>
         get_path h s [a, b] dflt = get h n (Key b) dflt \<and>
         set_path h s [a, b] v = map_option Inr (setitem h n b v)"
proof -
  have "getitem h s (Key a) = Some (Inr (Ref n))"
    using bound_above_getitem [OF assms(3) assms(1) assms(2)] .
  then show ?thesis
    by (simp add: getitem_Path_Cons get_Path_Cons getitem_of_def get_of_def
        getitem_Path_single get_Path_single)
qed

text \<open>
  The claim at \<^verbatim>\<open>S = button_theme["button"]["down"]\<close> with \<open>a\<close> the key \<^verbatim>\<open>button\<close>, bound
  in the root, two scopes up.
\<close>

theorem path_segments_fall_back_witness:
  "lookup button_theme 2 = Some \<lparr>items = [(''highlight'', Leaf 7)], parent = Some 1\<rparr> \<and>
   map_of [(''highlight'', Leaf (7::nat))] ''button'' = None \<and>
   bound_above button_theme 2 ''button'' (Ref 1) \<and>
   getitem button_theme 2 (Path [''button'', ''text_color'']) = Some (Inr (Leaf 255)) \<and>
   getitem button_theme 1 (Key ''text_color'') = Some (Inr (Leaf 255)) \<and>
   get button_theme 2 (Path [''button'', ''text_color'']) PyNone =
     get button_theme 1 (Key ''text_color'') PyNone \<and>
   get_path button_theme 2 [''button'', ''text_color''] PyNone =
     get button_theme 1 (Key ''text_color'') PyNone \<and>
   set_path button_theme 2 [''button'', ''text_color''] (Obj (Leaf 3)) =
     map_option Inr (setitem button_theme 1 ''text_color'' (Obj (Leaf 3)))"
proof -
  have l: "lookup button_theme 2 = Some \<lparr>items = [(''highlight'', Leaf 7)], parent = Some 1\<rparr>"
    by (simp add: button_theme_def lookup_def)
  have m: "map_of (items \<lparr>items = [(''highlight'', Leaf (7::nat))], parent = Some 1\<rparr>) ''button'' = None"
    by simp
  have b1: "bound_above button_theme 1 ''button'' (Ref 1)"
    by (rule bound_above.in_parent [where d = "button_theme ! 1" and p = 0
          and pd = "button_theme ! 0"])
       (simp_all add: button_theme_def lookup_def)
  have b: "bound_above button_theme 2 ''button'' (Ref 1)"
    by (rule bound_above.further [OF _ _ _ _ b1, where d = "button_theme ! 2"
          and pd = "button_theme ! 1"])
       (simp_all add: button_theme_def lookup_def)
  have v: "getitem button_theme 1 (Key ''text_color'') = Some (Inr (Leaf 255))"
    by (simp add: button_theme_def eval_simps)
  note t = path_segments_fall_back [OF l m b, of "''text_color''" PyNone "Obj (Leaf 3)"]
  show ?thesis
    using t l b v by simp
qed

section \<open>Properties of the theme\<close>

subsection \<open>The texture cache\<close>

lemma get_texture_cached:
  assumes "get_texture ld st f = Inr (st1, a)"
  shows "map_of (cache st1) f = Some a"
  using assms
  by (auto simp: get_texture_def Let_def update_conv' split: option.splits)

lemma get_texture_hit:
  "map_of (cache st) f = Some a \<Longrightarrow> get_texture ld st f = Inr (st, a)"
  by (simp add: get_texture_def)

lemma get_texture_decoded:
  assumes "get_texture ld st f = Inr (st1, a)"
  shows "decoded st1 = (if map_of (cache st) f = None then decoded st @ [f] else decoded st)"
  using assms
  by (auto simp: get_texture_def Let_def split: option.splits)

lemma get_texture_region_hit:
  assumes "map_of (cache st) f = Some a"
      and "get_texture_region ld st f x y w h = Inr (st', r)"
  shows "r = length (objects st) \<and> cache st' = cache st \<and> decoded st' = decoded st \<and>
         length (objects st') = Suc (length (objects st)) \<and>
         (\<forall>i<length (objects st). objects st' ! i = objects st ! i) \<and>
         region (objects st' ! r) = Some (x, y, w, h)"
  using assms
  by (auto simp: get_texture_region_def get_texture_hit get_region_def nth_append)

text \<open>
  Claim C4, as the source has it. Two requests for the same file \<^verbatim>\<open>a.png\<close> and the
  identical region (0, 0, 16, 16) return two texture objects, at the addresses 1 and 2:
  \<^verbatim>\<open>_get_texture_region\<close> cuts a new region from the cached whole texture each time, and
  only whole textures are in the cache.
\<close>

theorem region_textures_not_shared_counterexample:
  "get_texture_region png_loader no_textures ''a.png'' 0 0 16 16 =
     Inr (\<lparr>cache = [(''a.png'', 0)],
           objects = [\<lparr>src = ''a.png'', region = None, tex_width = 32, tex_height = 32\<rparr>,
                      \<lparr>src = ''a.png'', region = Some (0, 0, 16, 16), tex_width = 16, tex_height = 16\<rparr>],
           decoded = [''a.png'']\<rparr>, 1) \<and>
   get_texture_region png_loader
       \<lparr>cache = [(''a.png'', 0)],
        objects = [\<lparr>src = ''a.png'', region = None, tex_width = 32, tex_height = 32\<rparr>,
                   \<lparr>src = ''a.png'', region = Some (0, 0, 16, 16), tex_width = 16, tex_height = 16\<rparr>],
        decoded = [''a.png'']\<rparr> ''a.png'' 0 0 16 16 =
     Inr (\<lparr>cache = [(''a.png'', 0)],
           objects = [\<lparr>src = ''a.png'', region = None, tex_width = 32, tex_height = 32\<rparr>,
                      \<lparr>src = ''a.png'', region = Some (0, 0, 16, 16), tex_width = 16, tex_height = 16\<rparr>,
                      \<lparr>src = ''a.png'', region = Some (0, 0, 16, 16), tex_width = 16, tex_height = 16\<rparr>],
           decoded = [''a.png'']\<rparr>, 2)"
  by (simp add: get_texture_region_def get_texture_def get_region_def png_loader_def
      no_textures_def Let_def)

text \<open>
  Claim C4, amended. Whole textures are cached by filename: after the texture of a file
  was fetched, fetching it again returns the same object and leaves the cache, the
  objects and the list of decoded files as they are. Every request for a region of that
  file returns a texture object that did not exist before, carrying the region asked
  for, so two requests get distinct objects whether their regions are identical or
  differ; neither decodes the source again nor touches the cache. The source is decoded
  by the first fetch only when the file was not in the cache.
\<close>

theorem texture_cache_by_filename:
  assumes "get_texture ld st f = Inr (st1, a)"
      and "get_texture_region ld st1 f x y w h = Inr (st2, r1)"
      and "get_texture_region ld st2 f x' y' w' h' = Inr (st3, r2)"
  shows "get_texture ld st1 f = Inr (st1, a) \<and>
         r1 = length (objects st1) \<and> r2 = Suc (length (objects st1)) \<and> r1 \<noteq> r2 \<and>
         region (objects st3 ! r1) = Some (x, y, w, h) \<and>
         region (objects st3 ! r2) = Some (x', y', w', h') \<and>
         decoded st3 = decoded st1 \<and> cache st3 = cache st1 \<and>
         decoded st1 = (if map_of (cache st) f = None then decoded st @ [f] else decoded st)"
proof -
  have c1: "map_of (cache st1) f = Some a"
    using assms(1) by (rule get_texture_cached)
  have hit1: "get_texture ld st1 f = Inr (st1, a)"
    using c1 by (rule get_texture_hit)
  note s2 = get_texture_region_hit [OF c1 assms(2)]
  have c2: "map_of (cache st2) f = Some a"
    using c1 s2 by simp
  note s3 = get_texture_region_hit [OF c2 assms(3)]
  show ?thesis
    using hit1 s2 s3 get_texture_decoded [OF assms(1)] by auto
qed

text \<open>
  The amended claim on \<^verbatim>\<open>a.png\<close>, fetched whole and then by the regions (0, 0, 16, 16)
  and (16, 0, 16, 16): the whole texture is object 0 both times, the regions are the
  objects 1 and 2, and the file is decoded once.
\<close>

theorem texture_cache_by_filename_witness:
  "get_texture png_loader no_textures ''a.png'' =
     Inr (\<lparr>cache = [(''a.png'', 0)],
           objects = [\<lparr>src = ''a.png'', region = None, tex_width = 32, tex_height = 32\<rparr>],
           decoded = [''a.png'']\<rparr>, 0) \<and>
   get_texture_region png_loader
       \<lparr>cache = [(''a.png'', 0)],
        objects = [\<lparr>src = ''a.png'', region = None, tex_width = 32, tex_height = 32\<rparr>],
        decoded = [''a.png'']\<rparr> ''a.png'' 0 0 16 16 =
     Inr (\<lparr>cache = [(''a.png'', 0)],
           objects = [\<lparr>src = ''a.png'', region = None, tex_width = 32, tex_height = 32\<rparr>,
                      \<lparr>src = ''a.png'', region = Some (0, 0, 16, 16), tex_width = 16, tex_height = 16\<rparr>],
           decoded = [''a.png'']\<rparr>, 1) \<and>
   get_texture_region png_loader
       \<lparr>cache = [(''a.png'', 0)],
        objects = [\<lparr>src = ''a.png'', region = None, tex_width = 32, tex_height = 32\<rparr>,
                   \<lparr>src = ''a.png'', region = Some (0, 0, 16, 16), tex_width = 16, tex_height = 16\<rparr>],
        decoded = [''a.png'']\<rparr> ''a.png'' 16 0 16 16 =
     Inr (\<lparr>cache = [(''a.png'', 0)],
           objects = [\<lparr>src = ''a.png'', region = None, tex_width = 32, tex_height = 32\<rparr>,
                      \<lparr>src = ''a.png'', region = Some (0, 0, 16, 16), tex_width = 16, tex_height = 16\<rparr>,
                      \<lparr>src = ''a.png'', region = Some (16, 0, 16, 16), tex_width = 16, tex_height = 16\<rparr>],
           decoded = [''a.png'']\<rparr>, 2) \<and>
   get_texture png_loader
       \<lparr>cache = [(''a.png'', 0)],
        objects = [\<lparr>src = ''a.png'', region = None, tex_width = 32, tex_height = 32\<rparr>],
        decoded = [''a.png'']\<rparr> ''a.png'' =
     Inr (\<lparr>cache = [(''a.png'', 0)],
           objects = [\<lparr>src = ''a.png'', region = None, tex_width = 32, tex_height = 32\<rparr>],
           decoded = [''a.png'']\<rparr>, 0)"
proof -
  have g: "get_texture png_loader no_textures ''a.png'' =
     Inr (\<lparr>cache = [(''a.png'', 0)],
           objects = [\<lparr>src = ''a.png'', region = None, tex_width = 32, tex_height = 32\<rparr>],
           decoded = [''a.png'']\<rparr>, 0)"
    by (simp add: get_texture_def png_loader_def no_textures_def)
  have r1: "get_texture_region png_loader
       \<lparr>cache = [(''a.png'', 0)],
        objects = [\<lparr>src = ''a.png'', region = None, tex_width = 32, tex_height = 32\<rparr>],
        decoded = [''a.png'']\<rparr> ''a.png'' 0 0 16 16 =
     Inr (\<lparr>cache = [(''a.png'', 0)],
           objects = [\<lparr>src = ''a.png'', region = None, tex_width = 32, tex_height = 32\<rparr>,
                      \<lparr>src = ''a.png'', region = Some (0, 0, 16, 16), tex_width = 16, tex_height = 16\<rparr>],
           decoded = [''a.png'']\<rparr>, 1)"
    by (simp add: get_texture_region_def get_texture_def get_region_def)
  have r2: "get_texture_region png_loader
       \<lparr>cache = [(''a.png'', 0)],
        objects = [\<lparr>src = ''a.png'', region = None, tex_width = 32, tex_height = 32\<rparr>,
                   \<lparr>src = ''a.png'', region = Some (0, 0, 16, 16), tex_width = 16, tex_height = 16\<rparr>],
        decoded = [''a.png'']\<rparr> ''a.png'' 16 0 16 16 =
     Inr (\<lparr>cache = [(''a.png'', 0)],
           objects = [\<lparr>src = ''a.png'', region = None, tex_width = 32, tex_height = 32\<rparr>,
                      \<lparr>src = ''a.png'', region = Some (0, 0, 16, 16), tex_width = 16, tex_height = 16\<rparr>,
                      \<lparr>src = ''a.png'', region = Some (16, 0, 16, 16), tex_width = 16, tex_height = 16\<rparr>],
           decoded = [''a.png'']\<rparr>, 2)"
    by (simp add: get_texture_region_def get_texture_def get_region_def)
  note t = texture_cache_by_filename [OF g r1 r2]
  show ?thesis
    by (intro conjI g r1 r2 t [THEN conjunct1])
qed

subsection \<open>Image entries\<close>

text \<open>
  For a filename the constructor of the template gets the theme in the place of the
  texture and the texture in the place of the width, so it reads \<^verbatim>\<open>height\<close> from the
  theme: no template is ever made from a filename.
\<close>

lemma filename_entry_never_returns:
  "image_entry ld st (Filename f) =
     (case get_texture ld st f of Inl e \<Rightarrow> Inl e | Inr r \<Rightarrow> Inl AttributeError)"
  by (simp add: image_entry_def texture_template_init_def truthy_def attr_height_def
      split: sum.splits prod.splits)

text \<open>
  Claim C5, evaluated where the source departs from it. The entry \<^verbatim>\<open>"image": "a.png"\<close>
  raises \<^verbatim>\<open>AttributeError\<close> instead of giving a template of the fetched texture, while
  the entry \<^verbatim>\<open>"image": {"source": "a.png"}\<close>, which calls the same constructor with the
  texture first, gives the template the claim describes: the texture 0 of \<^verbatim>\<open>a.png\<close>
  and its size 32 by 32.
\<close>

theorem filename_image_entry_raises:
  "image_entry png_loader no_textures (Filename ''a.png'') = Inl AttributeError \<and>
   image_entry png_loader no_textures (Spec (Some ''a.png'') None None None) =
     Inr (\<lparr>cache = [(''a.png'', 0)],
           objects = [\<lparr>src = ''a.png'', region = None, tex_width = 32, tex_height = 32\<rparr>],
           decoded = [''a.png'']\<rparr>,
          \<lparr>t_texture = ATexture 0, t_width = AInt 32, t_height = AInt 32, t_frame = None\<rparr>)"
  by (simp add: image_entry_def texture_template_init_def truthy_def attr_height_def
      attr_width_def get_texture_def png_loader_def no_textures_def)

end


